theory Spec2Isabelle
  imports Main "HOL-Library.Char_ord" "HOL-Library.List_Lexorder" "HOL-Library.Product_Lexorder"
begin

section \<open>Objects of the editor: tabs, documents, clone lists, command managers\<close>

text \<open>
  The Python objects are kept in a store indexed by object identity. A tab, a document,
  a clone list and a command manager are each a reference (a number); two tabs that share
  a clone list hold the same list reference, as the Python objects hold the same list.
  Everything the code does to the GUI toolkit and to the odml library is recorded, in
  order, as an event of the log.
\<close>

type_synonym tab_id = nat
type_synonym doc_id = nat
type_synonym list_id = nat
type_synonym cm_id = nat
type_synonym win_id = nat
type_synonym node = nat

datatype klass = EditorTab | MappingEditorTab

datatype py_error = ValueError | AttributeError | NameError

datatype 'a outcome = Returns 'a | Raises py_error

text \<open>A validation error of the odml library: the fields the code reads.\<close>

record verror =
  obj :: node
  is_error :: bool
  path :: string
  msg :: string

text \<open>The object \<open>odml.validation.Validation(doc)\<close>: the code reads its \<open>errors\<close>.\<close>

record validation =
  errors :: "verror list"

text \<open>
  A document object: its content belongs to the odml library and is opaque here;
  \<open>validation_result\<close> is the attribute the tab attaches and deletes
  (\<open>None\<close>: the attribute is absent, \<open>hasattr\<close> is false); \<open>proxy_obj\<close> is the
  attribute \<open>_proxy_obj\<close> of a mapping document, the document it is a view of
  (\<open>None\<close>: the attribute is absent).
\<close>

record 'd document_obj =
  content :: 'd
  validation_result :: "validation option"
  proxy_obj :: "doc_id option"

text \<open>
  A command manager object. The class \<open>CommandManager\<close> is not among the sources
  (command\_manager.py); the object carries what the code of the tabs reads and writes
  of it: the number that \<open>len(manager)\<close> returns, and the three callback attributes that
  \<open>EditorTab.__init__\<close> installs. What \<open>manager.reset()\<close> does to the object is a
  parameter of the model (\<open>cm_reset\<close> of the environment below), and so is the object
  that \<open>CommandManager()\<close> returns (see \<open>init_tab\<close>).
\<close>

record command_manager_obj =
  cm_len :: nat
  cm_enable_undo :: "tab_id option"
  cm_enable_redo :: "tab_id option"
  cm_error_func :: "win_id option"

record tab =
  klass :: klass
  window :: win_id
  command_manager :: cm_id
  document :: "doc_id option"
  file_uri :: "string option"
  edited :: nat
  clones :: list_id

datatype event =
    ShowInfo win_id string
  | ErrorDialog "win_id option" string string
  | SetWelcome win_id
  | RegistryAdd win_id doc_id
  | ChangeEvent "string \<times> bool" bool string node
  | ShowValidationWindow tab_id
  | WindowEnableUndo win_id bool
  | WindowEnableRedo win_id bool
  | OdmlSave doc_id string string
  | UnmapDocument doc_id

record 'd state =
  tabs :: "tab_id \<Rightarrow> tab"
  lists :: "list_id \<Rightarrow> tab_id list"
  docs :: "doc_id \<Rightarrow> 'd document_obj"
  cms :: "cm_id \<Rightarrow> command_manager_obj"
  current_tab :: "win_id \<Rightarrow> tab_id option"
  log :: "event list"
  next_tab :: tab_id
  next_list :: list_id
  next_doc :: doc_id
  next_cm :: cm_id

datatype load_exn = InvalidVersionException | OtherException string

text \<open>
  The collaborators that are not part of these sources: the odml library, the helper
  functions of helpers.py and the method \<open>reset\<close> of the command manager. They are
  parameters of the model.
\<close>

record 'd environment =
  Validation :: "'d \<Rightarrow> validation"
  doc_clean :: "'d \<Rightarrow> 'd"
  doc_finalize :: "'d \<Rightarrow> 'd"
  handle_section_import :: "'d \<Rightarrow> 'd"
  odml_save :: "'d \<Rightarrow> string \<Rightarrow> string \<Rightarrow> string option"
  odml_load :: "string \<Rightarrow> string \<Rightarrow> load_exn + 'd"
  odml_Document :: 'd
  uri_to_path :: "string \<Rightarrow> string"
  get_parser_for_uri :: "string \<Rightarrow> string"
  get_extension :: "string \<Rightarrow> string"
  get_parser_for_file_type :: "string \<Rightarrow> string option"
  reader_from_file :: "string \<Rightarrow> string \<Rightarrow> string + 'd"
  parse_properties :: "'d \<Rightarrow> 'd"
  create_mapping :: "'d \<Rightarrow> 'd"
  cm_reset :: "command_manager_obj \<Rightarrow> command_manager_obj"

section \<open>Small helpers: the log, strings\<close>

definition emit :: "event \<Rightarrow> 'd state \<Rightarrow> 'd state" where
  "emit e s = s\<lparr>log := log s @ [e]\<rparr>"

definition show_info :: "win_id \<Rightarrow> string \<Rightarrow> 'd state \<Rightarrow> 'd state" where
  "show_info w m s = emit (ShowInfo w m) s"

definition set_doc :: "doc_id \<Rightarrow> 'd document_obj \<Rightarrow> 'd state \<Rightarrow> 'd state" where
  "set_doc d x s = s\<lparr>docs := (docs s)(d := x)\<rparr>"

definition set_tab :: "tab_id \<Rightarrow> tab \<Rightarrow> 'd state \<Rightarrow> 'd state" where
  "set_tab t x s = s\<lparr>tabs := (tabs s)(t := x)\<rparr>"

text \<open>\<open>os.path.basename\<close>: what follows the last slash.\<close>

definition basename :: "string \<Rightarrow> string" where
  "basename p = rev (takeWhile (\<lambda>c. c \<noteq> CHR ''/'') (rev p))"

text \<open>\<open>str.lower\<close> on the ASCII letters (the parser names are ASCII).\<close>

definition lower_char :: "char \<Rightarrow> char" where
  "lower_char c =
     (if 65 \<le> (of_char c :: nat) \<and> (of_char c :: nat) \<le> 90
      then char_of ((of_char c :: nat) + 32) else c)"

definition lower :: "string \<Rightarrow> string" where
  "lower = map lower_char"

definition invalid_msg :: string where
  "invalid_msg = ''Invalid document. Please fix errors (red) before saving.''"

definition valid_msg :: string where
  "valid_msg = ''The document is valid. No errors found.''"

section \<open>editor\_tab.py: class EditorTab\<close>

text \<open>
  \<open>__init__(self, window, cmdm=None)\<close>: the new tab, a new command manager unless one is
  given, and a new clone list holding the tab itself. \<open>file_uri\<close> and \<open>edited\<close> are the
  class defaults. The object that \<open>CommandManager()\<close> returns is the one the store
  holds at the new reference: nothing is fixed about it but the three callbacks that
  \<open>__init__\<close> sets.
\<close>

definition init_tab ::
  "klass \<Rightarrow> win_id \<Rightarrow> cm_id option \<Rightarrow> 'd state \<Rightarrow> tab_id \<times> 'd state" where
  "init_tab k w cmdm s =
     (let self = next_tab s;
          s1 = s\<lparr>next_tab := Suc self\<rparr>;
          (c, s2) =
            (case cmdm of
               Some c \<Rightarrow> (c, s1)
             | None \<Rightarrow>
                 (next_cm s1,
                  s1\<lparr>cms := (cms s1)(next_cm s1 :=
                          (cms s1 (next_cm s1))\<lparr>cm_enable_undo := Some self,
                                                 cm_enable_redo := Some self,
                                                 cm_error_func := Some w\<rparr>),
                      next_cm := Suc (next_cm s1)\<rparr>));
          l = next_list s2;
          s3 = s2\<lparr>lists := (lists s2)(l := [self]), next_list := Suc l\<rparr>
      in (self,
          set_tab self
            \<lparr>klass = k, window = w, command_manager = c, document = None,
             file_uri = None, edited = 0, clones = l\<rparr> s3))"

text \<open>\<open>new(self, doc=None)\<close>\<close>

definition new :: "'d environment \<Rightarrow> tab_id \<Rightarrow> doc_id option \<Rightarrow> 'd state \<Rightarrow> 'd state" where
  "new env self doc s =
     (let (d, s1) =
            (case doc of
               Some d \<Rightarrow> (d, s)
             | None \<Rightarrow>
                 (next_doc s,
                  (set_doc (next_doc s)
                     \<lparr>content = odml_Document env, validation_result = None, proxy_obj = None\<rparr> s)
                    \<lparr>next_doc := Suc (next_doc s)\<rparr>));
          s2 = emit (RegistryAdd (window (tabs s1 self)) d) s1
      in set_tab self ((tabs s2 self)\<lparr>document := Some d, file_uri := None\<rparr>) s2)"

text \<open>\<open>load(self, uri)\<close>\<close>

definition q :: string where
  "q = [CHR 0x27]"

definition outdated_msg :: string where
  "outdated_msg =
     ''You are trying to open an odML file of an outdated format. '' @ [CHR 0x0A, CHR 0x0A]
     @ ''Use '' @ q @ ''File .. import'' @ q @ '' to convert and open files of ''
     @ ''a previous odML format.''"

definition load :: "'d environment \<Rightarrow> tab_id \<Rightarrow> string \<Rightarrow> 'd state \<Rightarrow> bool \<times> 'd state" where
  "load env self uri s =
     (let s1 = set_tab self ((tabs s self)\<lparr>file_uri := Some uri\<rparr>) s;
          w = window (tabs s1 self);
          file_path = uri_to_path env uri;
          parser = get_parser_for_uri env file_path
      in case odml_load env file_path parser of
           Inl InvalidVersionException \<Rightarrow>
             (False,
              emit (SetWelcome w)
                (emit (ErrorDialog (Some w)
                         (''Cannot open file '' @ q @ basename file_path @ q @ ''.'')
                         outdated_msg) s1))
         | Inl (OtherException exc) \<Rightarrow>
             (False,
              emit (SetWelcome w)
                (emit (ErrorDialog (Some w)
                         (''Error parsing '' @ q @ file_path @ q) exc) s1))
         | Inr c \<Rightarrow>
             (let d = next_doc s1;
                  s2 = (set_doc d \<lparr>content = c, validation_result = None, proxy_obj = None\<rparr> s1)
                         \<lparr>next_doc := Suc d\<rparr>;
                  s3 = set_tab self ((tabs s2 self)\<lparr>document := Some d\<rparr>) s2;
                  s4 = set_doc d ((docs s3 d)\<lparr>content := doc_finalize env (content (docs s3 d))\<rparr>) s3;
                  s5 = set_doc d
                         ((docs s4 d)\<lparr>content := handle_section_import env (content (docs s4 d))\<rparr>) s4;
                  s6 = emit (RegistryAdd w d) s5
              in (True,
                  show_info w (''Loading of '' @ basename file_path @ '' done!'') s6)))"

text \<open>\<open>enable_undo\<close>, \<open>_enable_undo\<close>, \<open>enable_redo\<close>, \<open>_enable_redo\<close>\<close>

definition enable_undo' :: "tab_id \<Rightarrow> bool \<Rightarrow> 'd state \<Rightarrow> 'd state" where
  "enable_undo' self enable s =
     (if current_tab s (window (tabs s self)) = Some self
      then emit (WindowEnableUndo (window (tabs s self)) enable) s else s)"

definition enable_redo' :: "tab_id \<Rightarrow> bool \<Rightarrow> 'd state \<Rightarrow> 'd state" where
  "enable_redo' self enable s =
     (if current_tab s (window (tabs s self)) = Some self
      then emit (WindowEnableRedo (window (tabs s self)) enable) s else s)"

primrec for_tabs :: "(tab_id \<Rightarrow> 'd state \<Rightarrow> 'd state) \<Rightarrow> tab_id list \<Rightarrow> 'd state \<Rightarrow> 'd state" where
  "for_tabs body [] s = s"
| "for_tabs body (x # xs) s = for_tabs body xs (body x s)"

definition enable_undo :: "tab_id \<Rightarrow> bool \<Rightarrow> 'd state \<Rightarrow> 'd state" where
  "enable_undo self enable s =
     for_tabs (\<lambda>tab. enable_undo' tab enable) (lists s (clones (tabs s self))) s"

definition enable_redo :: "tab_id \<Rightarrow> bool \<Rightarrow> 'd state \<Rightarrow> 'd state" where
  "enable_redo self enable s =
     for_tabs (\<lambda>tab. enable_redo' tab enable) (lists s (clones (tabs s self))) s"

text \<open>\<open>reset(self)\<close>\<close>

definition reset :: "'d environment \<Rightarrow> tab_id \<Rightarrow> 'd state \<Rightarrow> 'd state" where
  "reset env self s =
     (let s1 = set_tab self ((tabs s self)\<lparr>edited := 0\<rparr>) s;
          c = command_manager (tabs s1 self);
          s2 = s1\<lparr>cms := (cms s1)(c := cm_reset env (cms s1 c))\<rparr>;
          s3 = enable_undo self False s2
      in enable_redo self False s3)"


text \<open>\<open>update_validation_error_objects(self, errors)\<close>: one change event per error.\<close>

definition change_event :: "verror \<Rightarrow> event" where
  "change_event err = ChangeEvent (''_error'', True) True ''set'' (obj err)"

primrec update_validation_error_objects :: "verror list \<Rightarrow> 'd state \<Rightarrow> 'd state" where
  "update_validation_error_objects [] s = s"
| "update_validation_error_objects (err # errs) s =
     update_validation_error_objects errs (emit (change_event err) s)"

text \<open>\<open>remove_validation(self)\<close>\<close>

definition remove_validation :: "tab_id \<Rightarrow> 'd state \<Rightarrow> 'd state" where
  "remove_validation self s =
     (case document (tabs s self) of
        None \<Rightarrow> s
      | Some d \<Rightarrow>
          (case validation_result (docs s d) of
             None \<Rightarrow> s
           | Some v \<Rightarrow>
               update_validation_error_objects (errors v)
                 (set_doc d ((docs s d)\<lparr>validation_result := None\<rparr>) s)))"

text \<open>
  \<open>validate(self)\<close>. A tab without a document (\<open>self.document\<close> is \<open>None\<close>) cannot take
  the attribute \<open>validation_result\<close>: the call raises before it changes anything.
\<close>

definition validate :: "'d environment \<Rightarrow> tab_id \<Rightarrow> 'd state \<Rightarrow> unit outcome \<times> 'd state" where
  "validate env self s =
     (let s1 = remove_validation self s
      in case document (tabs s1 self) of
           None \<Rightarrow> (Raises AttributeError, s1)
         | Some d \<Rightarrow>
             (let v = Validation env (content (docs s1 d));
                  s2 = set_doc d ((docs s1 d)\<lparr>validation_result := Some v\<rparr>) s1
              in if length (errors v) > 0
                 then (Returns (),
                       emit (ShowValidationWindow self)
                         (update_validation_error_objects (errors v) s2))
                 else (Returns (),
                       remove_validation self
                         (show_info (window (tabs s2 self)) valid_msg s2))))"

text \<open>
  The parser and the file path that \<open>save\<close> computes from its arguments (lines
  175 to 186 of editor\_tab.py): the parser of the file type when one is given and it
  names a parser, the parser of the uri otherwise; the path gets the parser's name as
  extension unless it has it already.
\<close>

definition save_target :: "'d environment \<Rightarrow> string \<Rightarrow> string option \<Rightarrow> string \<times> string" where
  "save_target env uri file_type =
     (let parser0 =
            (case file_type of
               None \<Rightarrow> None
             | Some ft \<Rightarrow> if ft = [] then None else get_parser_for_file_type env ft);
          parser =
            (case parser0 of
               None \<Rightarrow> get_parser_for_uri env uri
             | Some p \<Rightarrow> if p = [] then get_parser_for_uri env uri else p);
          file_path = uri_to_path env uri;
          ext = get_extension env file_path
      in (if ext \<noteq> parser then file_path @ ''.'' @ lower parser else file_path, parser))"

text \<open>
  \<open>save(self, uri, file_type=None)\<close>. The result is \<open>None\<close> for Python's bare
  \<open>return\<close> and \<open>Some True\<close> for \<open>return True\<close>.
\<close>

definition save ::
  "'d environment \<Rightarrow> tab_id \<Rightarrow> string \<Rightarrow> string option \<Rightarrow> 'd state
     \<Rightarrow> bool option outcome \<times> 'd state" where
  "save env self uri file_type s =
     (let s1 = remove_validation self s
      in case document (tabs s1 self) of
           None \<Rightarrow> (Raises AttributeError, s1)
         | Some d \<Rightarrow>
             (let v = Validation env (content (docs s1 d));
                  s2 = set_doc d ((docs s1 d)\<lparr>validation_result := Some v\<rparr>) s1;
                  w = window (tabs s2 self)
              in if list_ex is_error (errors v)
                 then (case validate env self (show_info w invalid_msg s2) of
                         (Raises e, s3) \<Rightarrow> (Raises e, s3)
                       | (Returns u, s3) \<Rightarrow> (Returns None, s3))
                 else
                   (let s3 = set_doc d ((docs s2 d)\<lparr>content := doc_clean env (content (docs s2 d))\<rparr>) s2;
                        (file_path, parser) = save_target env uri file_type;
                        s4 = emit (OdmlSave d file_path parser) s3
                    in case odml_save env (content (docs s4 d)) file_path parser of
                         Some exc \<Rightarrow> (Returns None, show_info w (''Save failed: '' @ exc) s4)
                       | None \<Rightarrow>
                           (let s5 = set_doc d
                                  ((docs s4 d)\<lparr>content := doc_finalize env (content (docs s4 d))\<rparr>) s4;
                                s6 = set_doc d
                                  ((docs s5 d)\<lparr>content :=
                                     handle_section_import env (content (docs s5 d))\<rparr>) s5;
                                s7 = show_info w (basename file_path @ '' was saved'') s6
                            in (Returns (Some True),
                                set_tab self
                                  ((tabs s7 self)\<lparr>edited :=
                                     cm_len (cms s7 (command_manager (tabs s7 self)))\<rparr>) s7)))))"

text \<open>\<open>clone(self, klass=None)\<close>\<close>

definition clone :: "tab_id \<Rightarrow> klass option \<Rightarrow> 'd state \<Rightarrow> tab_id \<times> 'd state" where
  "clone self k s =
     (let kl = (case k of None \<Rightarrow> klass (tabs s self) | Some c \<Rightarrow> c);
          (ntab, s1) = init_tab kl (window (tabs s self)) (Some (command_manager (tabs s self))) s;
          l = clones (tabs s1 self);
          s2 = s1\<lparr>lists := (lists s1)(l := lists s1 l @ [ntab])\<rparr>;
          s3 = set_tab ntab ((tabs s2 ntab)\<lparr>clones := clones (tabs s2 self)\<rparr>) s2;
          s4 = set_tab ntab ((tabs s3 ntab)\<lparr>file_uri := file_uri (tabs s3 self)\<rparr>) s3;
          s5 = set_tab ntab ((tabs s4 ntab)\<lparr>document := document (tabs s4 self)\<rparr>) s4
      in (ntab, s5))"

text \<open>
  \<open>close(self)\<close>: \<open>list.remove\<close> takes out the first occurrence and raises
  \<open>ValueError\<close> when there is none.
\<close>

definition close :: "tab_id \<Rightarrow> 'd state \<Rightarrow> unit outcome \<times> 'd state" where
  "close self s =
     (let l = clones (tabs s self)
      in if self \<in> set (lists s l)
         then (Returns (), s\<lparr>lists := (lists s)(l := remove1 self (lists s l))\<rparr>)
         else (Raises ValueError, s))"

section \<open>EditorTab.py: the legacy classes EditorTab and MappingEditorTab\<close>

text \<open>
  In EditorTab.py the methods \<open>__init__\<close>, \<open>new\<close>, \<open>reset\<close>, \<open>is_modified\<close>, \<open>enable_undo\<close>,
  \<open>enable_redo\<close>, \<open>clone\<close> and \<open>close\<close> of \<open>EditorTab\<close> have the same text as in
  editor\_tab.py; the definitions above stand for both. The methods below are translated
  from EditorTab.py.
\<close>

text \<open>\<open>load(self, uri)\<close> of EditorTab.py\<close>

definition load_legacy :: "'d environment \<Rightarrow> tab_id \<Rightarrow> string \<Rightarrow> 'd state \<Rightarrow> bool \<times> 'd state" where
  "load_legacy env self uri s =
     (let s1 = set_tab self ((tabs s self)\<lparr>file_uri := Some uri\<rparr>) s;
          w = window (tabs s1 self);
          file_path = uri_to_path env uri;
          parser = get_parser_for_uri env file_path
      in case reader_from_file env parser file_path of
           Inl e \<Rightarrow>
             (False,
              emit (ErrorDialog None (''Error while parsing '' @ q @ file_path @ q) e) s1)
         | Inr c \<Rightarrow>
             (let d = next_doc s1;
                  s2 = (set_doc d \<lparr>content = c, validation_result = None, proxy_obj = None\<rparr> s1)
                         \<lparr>next_doc := Suc d\<rparr>;
                  s3 = set_tab self ((tabs s2 self)\<lparr>document := Some d\<rparr>) s2;
                  s4 = set_doc d ((docs s3 d)\<lparr>content := doc_finalize env (content (docs s3 d))\<rparr>) s3;
                  s5 = set_doc d
                         ((docs s4 d)\<lparr>content := parse_properties env (content (docs s4 d))\<rparr>) s4;
                  s6 = emit (RegistryAdd w d) s5
              in (True,
                  show_info w (''Loading of '' @ basename file_path @ '' done!'') s6)))"

text \<open>\<open>update_validation_error_objects\<close>, \<open>remove_validation\<close>, \<open>validate\<close> of EditorTab.py\<close>

primrec update_validation_error_objects_legacy :: "verror list \<Rightarrow> 'd state \<Rightarrow> 'd state" where
  "update_validation_error_objects_legacy [] s = s"
| "update_validation_error_objects_legacy (err # errs) s =
     update_validation_error_objects_legacy errs
       (s\<lparr>log := log s @ [ChangeEvent (''_error'', True) True ''set'' (obj err)]\<rparr>)"

definition remove_validation_legacy :: "tab_id \<Rightarrow> 'd state \<Rightarrow> 'd state" where
  "remove_validation_legacy self s =
     (case document (tabs s self) of
        None \<Rightarrow> s
      | Some d \<Rightarrow>
          (case validation_result (docs s d) of
             None \<Rightarrow> s
           | Some v \<Rightarrow>
               update_validation_error_objects_legacy (errors v)
                 (s\<lparr>docs := (docs s)(d := (docs s d)\<lparr>validation_result := None\<rparr>)\<rparr>)))"

definition validate_legacy ::
  "'d environment \<Rightarrow> tab_id \<Rightarrow> 'd state \<Rightarrow> unit outcome \<times> 'd state" where
  "validate_legacy env self s =
     (let s1 = remove_validation_legacy self s
      in case document (tabs s1 self) of
           None \<Rightarrow> (Raises AttributeError, s1)
         | Some d \<Rightarrow>
             (let v = Validation env (content (docs s1 d));
                  s2 = s1\<lparr>docs := (docs s1)(d := (docs s1 d)\<lparr>validation_result := Some v\<rparr>)\<rparr>
              in if 0 < length (errors v)
                 then (Returns (),
                       (update_validation_error_objects_legacy (errors v) s2)
                         \<lparr>log := log (update_validation_error_objects_legacy (errors v) s2)
                                 @ [ShowValidationWindow self]\<rparr>)
                 else (Returns (),
                       remove_validation_legacy self
                         (s2\<lparr>log := log s2 @ [ShowInfo (window (tabs s2 self)) valid_msg]\<rparr>))))"

text \<open>
  \<open>clone_mapping(self)\<close>. After the loop the code reads the loop variable \<open>tab\<close>: the last
  tab of the clone list, and an unbound name when the list is empty. The mapping document
  that the mapping facility returns is a new document; its \<open>_proxy_obj\<close> is the document
  it was made from.
\<close>

definition clone_mapping :: "'d environment \<Rightarrow> tab_id \<Rightarrow> 'd state \<Rightarrow> tab_id outcome \<times> 'd state" where
  "clone_mapping env self s =
     (let cl = lists s (clones (tabs s self))
      in case find (\<lambda>tab. klass (tabs s tab) = MappingEditorTab) cl of
           Some tab \<Rightarrow> (let (ntab, s1) = clone tab None s in (Returns ntab, s1))
         | None \<Rightarrow>
             (if cl = [] then (Raises NameError, s)
              else
                (case document (tabs s (last cl)) of
                   None \<Rightarrow> (Raises AttributeError, s)
                 | Some d \<Rightarrow>
                     (let mapdoc = next_doc s;
                          s1 = (set_doc mapdoc
                                  \<lparr>content = create_mapping env (content (docs s d)),
                                   validation_result = None, proxy_obj = Some d\<rparr> s)
                                 \<lparr>next_doc := Suc mapdoc\<rparr>;
                          s2 = emit (RegistryAdd (window (tabs s1 self)) mapdoc) s1;
                          (ntab, s3) = clone self (Some MappingEditorTab) s2
                      in (Returns ntab,
                          set_tab ntab ((tabs s3 ntab)\<lparr>document := Some mapdoc\<rparr>) s3)))))"

text \<open>
  \<open>MappingEditorTab.close(self)\<close>: the inherited \<open>close\<close>, then the unmapping when the
  clone list holds no mapped tab any more. Reading \<open>self.document._proxy_obj\<close> raises
  when the tab has no document or the document has no such attribute.
\<close>

definition MappingEditorTab_close :: "tab_id \<Rightarrow> 'd state \<Rightarrow> unit outcome \<times> 'd state" where
  "MappingEditorTab_close self s =
     (case close self s of
        (Raises e, s1) \<Rightarrow> (Raises e, s1)
      | (Returns u, s1) \<Rightarrow>
          (if filter (\<lambda>x. klass (tabs s1 x) = MappingEditorTab) (lists s1 (clones (tabs s1 self))) = []
           then (case document (tabs s1 self) of
                   None \<Rightarrow> (Raises AttributeError, s1)
                 | Some d \<Rightarrow>
                     (case proxy_obj (docs s1 d) of
                        None \<Rightarrow> (Raises AttributeError, s1)
                      | Some p \<Rightarrow> (Returns (), emit (UnmapDocument p) s1)))
           else (Returns (), s1)))"

section \<open>validation\_window.py: class ValidationView\<close>

definition COL_PATH :: nat where "COL_PATH = 0"
definition COL_INDEX :: nat where "COL_INDEX = 1"
definition COL_DESC :: nat where "COL_DESC = 2"

text \<open>
  The view: the rows of its list store (a string, an integer, a string), the errors it
  shows, and the columns added by \<open>add_column(name, data, col_id)\<close>.
\<close>

record validation_view =
  store :: "(string \<times> nat \<times> string) list"
  view_errors :: "verror list"
  columns :: "(string \<times> nat \<times> nat) list"

definition add_column :: "string \<Rightarrow> nat \<Rightarrow> nat \<Rightarrow> validation_view \<Rightarrow> validation_view" where
  "add_column name data col_id v = v\<lparr>columns := columns v @ [(name, data, col_id)]\<rparr>"

text \<open>\<open>ValidationView.__init__\<close>\<close>

definition ValidationView :: validation_view where
  "ValidationView =
     add_column ''Description'' COL_DESC COL_DESC
       (add_column ''Path'' COL_PATH COL_PATH
          \<lparr>store = [], view_errors = [], columns = []\<rparr>)"

text \<open>The warning sign U+26A0, as its three bytes.\<close>

definition warn :: string where
  "warn = [CHR 0xE2, CHR 0x9A, CHR 0xA0]"

text \<open>The body of the loop of \<open>fill\<close>: the row appended for one element.\<close>

fun fill_row :: "string \<times> nat \<times> string \<times> bool \<Rightarrow> string \<times> nat \<times> string" where
  "fill_row (path', idx, msg', is_error') =
     (if \<not> is_error' then ''<span foreground='' @ q @ ''darkgrey'' @ q @ ''>'' @ path' @ ''</span>''
      else path',
      idx,
      ''<span foreground='' @ q @ (if is_error' then ''red'' else ''orange'') @ q @ ''>''
        @ warn @ ''</span> '' @ msg')"

text \<open>
  \<open>fill(self)\<close>: the elements are tuples, sorted as Python sorts tuples (by path, then by
  index, then by message, then by the flag).
\<close>

definition elements :: "verror list \<Rightarrow> (string \<times> nat \<times> string \<times> bool) list" where
  "elements errs = map (\<lambda>(j, err). (path err, j, msg err, is_error err)) (enumerate 0 errs)"

definition fill :: "validation_view \<Rightarrow> validation_view" where
  "fill v = v\<lparr>store := [] @ map fill_row (sort (elements (view_errors v)))\<rparr>"

definition set_errors :: "verror list \<Rightarrow> validation_view \<Rightarrow> validation_view" where
  "set_errors errs v = fill (v\<lparr>view_errors := errs\<rparr>)"

section \<open>Sequences of calls\<close>

text \<open>
  A call of one of the methods of editor\_tab.py on a tab, the construction of a tab, or
  the window making a tab its current one. \<open>run\<close> performs a sequence of calls; a call
  that raises leaves the state as it is at the raise.
\<close>

datatype call =
    Init klass win_id "cm_id option"
  | New tab_id "doc_id option"
  | Load tab_id string
  | Reset tab_id
  | Save tab_id string "string option"
  | EnableUndo tab_id bool
  | EnableRedo tab_id bool
  | Clone tab_id "klass option"
  | Validate tab_id
  | RemoveValidation tab_id
  | Close tab_id
  | SetCurrentTab win_id "tab_id option"

fun exec :: "'d environment \<Rightarrow> call \<Rightarrow> 'd state \<Rightarrow> 'd state" where
  "exec env (Init k w cmdm) s = snd (init_tab k w cmdm s)"
| "exec env (New t doc) s = new env t doc s"
| "exec env (Load t uri) s = snd (load env t uri s)"
| "exec env (Reset t) s = reset env t s"
| "exec env (Save t uri ft) s = snd (save env t uri ft s)"
| "exec env (EnableUndo t b) s = enable_undo t b s"
| "exec env (EnableRedo t b) s = enable_redo t b s"
| "exec env (Clone t k) s = snd (clone t k s)"
| "exec env (Validate t) s = snd (validate env t s)"
| "exec env (RemoveValidation t) s = remove_validation t s"
| "exec env (Close t) s = snd (close t s)"
| "exec env (SetCurrentTab w t) s = s\<lparr>current_tab := (current_tab s)(w := t)\<rparr>"

primrec run :: "'d environment \<Rightarrow> call list \<Rightarrow> 'd state \<Rightarrow> 'd state" where
  "run env [] s = s"
| "run env (c # cs) s = run env cs (exec env c s)"

text \<open>
  A call is possible in a state when the objects it names exist: Python cannot call a
  method of a tab that has not been constructed.
\<close>

fun valid :: "'d state \<Rightarrow> call \<Rightarrow> bool" where
  "valid s (Init k w cmdm) = (case cmdm of None \<Rightarrow> True | Some c \<Rightarrow> c < next_cm s)"
| "valid s (New t doc) = (t < next_tab s \<and> (case doc of None \<Rightarrow> True | Some d \<Rightarrow> d < next_doc s))"
| "valid s (Load t uri) = (t < next_tab s)"
| "valid s (Reset t) = (t < next_tab s)"
| "valid s (Save t uri ft) = (t < next_tab s)"
| "valid s (EnableUndo t b) = (t < next_tab s)"
| "valid s (EnableRedo t b) = (t < next_tab s)"
| "valid s (Clone t k) = (t < next_tab s)"
| "valid s (Validate t) = (t < next_tab s)"
| "valid s (RemoveValidation t) = (t < next_tab s)"
| "valid s (Close t) = (t < next_tab s)"
| "valid s (SetCurrentTab w t) = (case t of None \<Rightarrow> True | Some u \<Rightarrow> u < next_tab s)"

primrec valid_run :: "'d environment \<Rightarrow> call list \<Rightarrow> 'd state \<Rightarrow> bool" where
  "valid_run env [] s = True"
| "valid_run env (c # cs) s = (valid s c \<and> valid_run env cs (exec env c s))"

text \<open>The part of a state that the clone lists live in.\<close>

definition clone_frame ::
  "'d state \<Rightarrow> (list_id \<Rightarrow> tab_id list) \<times> (tab_id \<Rightarrow> list_id) \<times> tab_id \<times> list_id" where
  "clone_frame s = (lists s, (\<lambda>u. clones (tabs s u)), next_tab s, next_list s)"

text \<open>
  The tabs and lists of a state are well formed: every tab in a clone list has been
  constructed, no list holds a tab twice, and the clone list of a constructed tab has
  been allocated.
\<close>

definition wf :: "'d state \<Rightarrow> bool" where
  "wf s =
     ((\<forall>l. distinct (lists s l) \<and> (\<forall>u \<in> set (lists s l). u < next_tab s))
      \<and> (\<forall>u. u < next_tab s \<longrightarrow> clones (tabs s u) < next_list s))"

definition in_own_clones :: "'d state \<Rightarrow> tab_id \<Rightarrow> bool" where
  "in_own_clones s t = (t \<in> set (lists s (clones (tabs s t))))"

text \<open>The tabs of a list that are the current tab of their window.\<close>

definition current_of :: "'d state \<Rightarrow> tab_id list \<Rightarrow> tab_id list" where
  "current_of s xs = filter (\<lambda>u. current_tab s (window (tabs s u)) = Some u) xs"

text \<open>The errors of a validation result left on the tab's document, if any.\<close>

definition dangling :: "'d state \<Rightarrow> tab_id \<Rightarrow> verror list" where
  "dangling s self =
     (case document (tabs s self) of
        None \<Rightarrow> []
      | Some d \<Rightarrow> (case validation_result (docs s d) of None \<Rightarrow> [] | Some v \<Rightarrow> errors v))"

text \<open>The events a state has logged beyond those of an earlier state.\<close>

definition new_events :: "'d state \<Rightarrow> 'd state \<Rightarrow> event list" where
  "new_events s s' = drop (length (log s)) (log s')"

fun is_OdmlSave :: "event \<Rightarrow> bool" where
  "is_OdmlSave (OdmlSave d fp p) = True"
| "is_OdmlSave e = False"

fun is_ShowValidationWindow :: "event \<Rightarrow> bool" where
  "is_ShowValidationWindow (ShowValidationWindow t) = True"
| "is_ShowValidationWindow e = False"

section \<open>Example objects\<close>

text \<open>
  A concrete environment and concrete states, on which the theorems below are
  instantiated. The content of a document is a number here: validation finds nothing in
  content 0, one warning in content 1, and an error and a warning in any other content;
  a file that loads has the length of its path as content; resetting a command manager
  leaves it with length 0.
\<close>

definition example_error :: verror where
  "example_error = \<lparr>obj = 7, is_error = True, path = ''/sec/prop'', msg = ''missing value''\<rparr>"

definition example_warning :: verror where
  "example_warning = \<lparr>obj = 3, is_error = False, path = ''/sec'', msg = ''no type''\<rparr>"

definition example_env :: "nat environment" where
  "example_env =
     \<lparr>Validation = (\<lambda>c. \<lparr>errors = (if c = 0 then [] else if c = 1 then [example_warning]
                                       else [example_error, example_warning])\<rparr>),
      doc_clean = (\<lambda>c. c),
      doc_finalize = (\<lambda>c. c),
      handle_section_import = (\<lambda>c. c),
      odml_save = (\<lambda>c fp p. if fp = ''/ro/a.xml'' then Some ''denied'' else None),
      odml_load = (\<lambda>fp p. if fp = ''old.xml'' then Inl InvalidVersionException
                            else if fp = ''bad.xml'' then Inl (OtherException ''syntax'')
                            else Inr (length fp)),
      odml_Document = 0,
      uri_to_path = (\<lambda>u. u),
      get_parser_for_uri = (\<lambda>u. ''XML''),
      get_extension = (\<lambda>u. ''XML''),
      get_parser_for_file_type = (\<lambda>ft. None),
      reader_from_file = (\<lambda>p fp. if fp = ''bad.xml'' then Inl ''syntax'' else Inr (length fp)),
      parse_properties = (\<lambda>c. c),
      create_mapping = (\<lambda>c. c),
      cm_reset = (\<lambda>c. c\<lparr>cm_len := 0\<rparr>)\<rparr>"

definition empty_state :: "nat state" where
  "empty_state =
     \<lparr>tabs = (\<lambda>t. \<lparr>klass = EditorTab, window = 0, command_manager = 0, document = None,
                    file_uri = None, edited = 0, clones = 0\<rparr>),
      lists = (\<lambda>l. []),
      docs = (\<lambda>d. \<lparr>content = 0, validation_result = None, proxy_obj = None\<rparr>),
      cms = (\<lambda>c. \<lparr>cm_len = 0, cm_enable_undo = None, cm_enable_redo = None,
                   cm_error_func = None\<rparr>),
      current_tab = (\<lambda>w. None),
      log = [],
      next_tab = 0, next_list = 0, next_doc = 0, next_cm = 0\<rparr>"

text \<open>
  Tabs 0 and 1 are clones (list 0, command manager 0 of length 2, document 0
  with one warning); tab 1 is the current tab of window 0. Tab 2 stands alone with
  document 1, which has an error. Tab 3 is a mapped tab in a list of its own with the
  mapping document 2 of document 0.
\<close>

definition example_state :: "nat state" where
  "example_state =
     \<lparr>tabs = (tabs empty_state)
        (0 := \<lparr>klass = EditorTab, window = 0, command_manager = 0, document = Some 0,
               file_uri = Some ''a.xml'', edited = 0, clones = 0\<rparr>,
         1 := \<lparr>klass = EditorTab, window = 0, command_manager = 0, document = Some 0,
               file_uri = Some ''a.xml'', edited = 0, clones = 0\<rparr>,
         2 := \<lparr>klass = EditorTab, window = 0, command_manager = 1, document = Some 1,
               file_uri = None, edited = 0, clones = 1\<rparr>,
         3 := \<lparr>klass = MappingEditorTab, window = 0, command_manager = 0, document = Some 2,
               file_uri = Some ''a.xml'', edited = 0, clones = 2\<rparr>),
      lists = (lists empty_state)(0 := [0, 1], 1 := [2], 2 := [3]),
      docs = (docs empty_state)
        (0 := \<lparr>content = 1, validation_result = None, proxy_obj = None\<rparr>,
         1 := \<lparr>content = 2, validation_result = None, proxy_obj = None\<rparr>,
         2 := \<lparr>content = 1, validation_result = None, proxy_obj = Some 0\<rparr>),
      cms = (cms empty_state)
        (0 := \<lparr>cm_len = 2, cm_enable_undo = Some 0, cm_enable_redo = Some 0,
               cm_error_func = Some 0\<rparr>,
         1 := \<lparr>cm_len = 0, cm_enable_undo = Some 2, cm_enable_redo = Some 2,
               cm_error_func = Some 0\<rparr>),
      current_tab = (current_tab empty_state)(0 := Some 1),
      log = [],
      next_tab = 4, next_list = 3, next_doc = 3, next_cm = 2\<rparr>"

text \<open>
  A state reached with the methods of EditorTab.py: tab 0 is constructed and given a new
  document (document 0), tab 1 is its clone, and tab 1 then loads the file c.xml
  (document 1). The two tabs share a clone list and hold different documents.
\<close>

definition two_documents_state :: "nat state" where
  "two_documents_state =
     snd (load_legacy example_env 1 ''c.xml''
       (snd (clone 0 None
         (new example_env 0 None
           (snd (init_tab EditorTab 0 None empty_state))))))"

section \<open>Lemmas about the methods\<close>

lemma update_validation_error_objects_log:
  "update_validation_error_objects errs s = s\<lparr>log := log s @ map change_event errs\<rparr>"
  by (induction errs arbitrary: s) (simp_all add: emit_def)

lemma validation_result_idem:
  "validation_result x = v \<Longrightarrow> x\<lparr>validation_result := v\<rparr> = x"
  by (cases x) simp

lemma remove_validation_eq:
  "document (tabs s self) = Some d \<Longrightarrow>
   remove_validation self s =
     s\<lparr>docs := (docs s)(d := (docs s d)\<lparr>validation_result := None\<rparr>),
       log := log s @ map change_event (dangling s self)\<rparr>"
  by (cases "validation_result (docs s d)")
     (simp_all add: remove_validation_def dangling_def set_doc_def
        update_validation_error_objects_log validation_result_idem)

lemma validate_eq:
  assumes "document (tabs s self) = Some d"
  shows "validate env self s =
     (let v = Validation env (content (docs s d))
      in if errors v \<noteq> []
         then (Returns (),
               s\<lparr>docs := (docs s)(d := (docs s d)\<lparr>validation_result := Some v\<rparr>),
                 log := log s @ map change_event (dangling s self) @ map change_event (errors v)
                        @ [ShowValidationWindow self]\<rparr>)
         else (Returns (),
               s\<lparr>docs := (docs s)(d := (docs s d)\<lparr>validation_result := None\<rparr>),
                 log := log s @ map change_event (dangling s self)
                        @ [ShowInfo (window (tabs s self)) valid_msg]\<rparr>))"
  using assms
  by (simp add: validate_def remove_validation_eq Let_def set_doc_def emit_def show_info_def
      update_validation_error_objects_log dangling_def)

lemma save_invalid_eq:
  assumes "document (tabs s self) = Some d"
    and "list_ex is_error (errors (Validation env (content (docs s d))))"
  shows "save env self uri ft s =
     (Returns None,
      s\<lparr>docs := (docs s)(d := (docs s d)\<lparr>validation_result :=
                                 Some (Validation env (content (docs s d)))\<rparr>),
        log := log s @ map change_event (dangling s self)
               @ [ShowInfo (window (tabs s self)) invalid_msg]
               @ map change_event (errors (Validation env (content (docs s d))))
               @ map change_event (errors (Validation env (content (docs s d))))
               @ [ShowValidationWindow self]\<rparr>)"
proof -
  from assms(2) have ne: "errors (Validation env (content (docs s d))) \<noteq> []"
    by auto
  show ?thesis using assms ne
    by (simp add: save_def remove_validation_eq Let_def set_doc_def emit_def show_info_def
        validate_eq dangling_def)
qed

lemma save_valid_eq:
  assumes "document (tabs s self) = Some d"
    and "\<not> list_ex is_error (errors (Validation env (content (docs s d))))"
  shows "save env self uri ft s =
     (let v = Validation env (content (docs s d));
          w = window (tabs s self);
          c1 = doc_clean env (content (docs s d));
          fp = fst (save_target env uri ft);
          p = snd (save_target env uri ft)
      in case odml_save env c1 fp p of
           Some exc \<Rightarrow>
             (Returns None,
              s\<lparr>docs := (docs s)(d := (docs s d)\<lparr>validation_result := Some v, content := c1\<rparr>),
                log := log s @ map change_event (dangling s self)
                       @ [OdmlSave d fp p, ShowInfo w (''Save failed: '' @ exc)]\<rparr>)
         | None \<Rightarrow>
             (Returns (Some True),
              s\<lparr>docs := (docs s)(d := (docs s d)
                         \<lparr>validation_result := Some v,
                          content := handle_section_import env (doc_finalize env c1)\<rparr>),
                log := log s @ map change_event (dangling s self)
                       @ [OdmlSave d fp p, ShowInfo w (basename fp @ '' was saved'')],
                tabs := (tabs s)(self := (tabs s self)
                         \<lparr>edited := cm_len (cms s (command_manager (tabs s self)))\<rparr>)\<rparr>))"
  using assms
  by (cases "save_target env uri ft")
     (simp add: save_def remove_validation_eq Let_def set_doc_def set_tab_def emit_def
        show_info_def split: option.splits)


lemma new_events_append:
  "log s' = log s @ evs \<Longrightarrow> new_events s s' = evs"
  by (simp add: new_events_def)

lemma list_ex_is_OdmlSave_change [simp]:
  "\<not> list_ex is_OdmlSave (map change_event errs)"
  by (induction errs) (simp_all add: change_event_def)

lemma list_ex_is_ShowValidationWindow_change [simp]:
  "\<not> list_ex is_ShowValidationWindow (map change_event errs)"
  by (induction errs) (simp_all add: change_event_def)

lemma update_validation_error_objects_legacy_eq:
  "update_validation_error_objects_legacy errs s = update_validation_error_objects errs s"
  by (induction errs arbitrary: s) (simp_all add: emit_def change_event_def)

lemma remove_validation_legacy_eq:
  "remove_validation_legacy self s = remove_validation self s"
  by (simp add: remove_validation_legacy_def remove_validation_def set_doc_def
      update_validation_error_objects_legacy_eq split: option.splits)

section \<open>Saving\<close>

text \<open>
  Claim C1. \<open>save\<close> validates the tab's document first. When a validation error has
  \<open>is_error\<close> set, \<open>save\<close> returns \<open>None\<close>, logs no call of \<open>odml.save\<close>, leaves every
  tab (so the \<open>edited\<close> counter) and every command manager as they were, shows the
  notice "Invalid document. ..." and ends in the state that \<open>validate\<close> produces from the
  state with the notice shown. When no error has \<open>is_error\<close> set, \<open>odml.save\<close> is called on
  the document with the computed path and parser; \<open>save\<close> returns \<open>True\<close> exactly when that
  call does not raise, and then \<open>edited\<close> is the length of the command manager. The tab is
  one that has a document.
\<close>

theorem save_validation_gate:
  assumes "document (tabs s self) = Some d"
  shows
    "(list_ex is_error (errors (Validation env (content (docs s d)))) \<longrightarrow>
        fst (save env self uri ft s) = Returns None
      \<and> \<not> list_ex is_OdmlSave (new_events s (snd (save env self uri ft s)))
      \<and> tabs (snd (save env self uri ft s)) = tabs s
      \<and> cms (snd (save env self uri ft s)) = cms s
      \<and> ShowInfo (window (tabs s self)) invalid_msg
           \<in> set (new_events s (snd (save env self uri ft s)))
      \<and> snd (save env self uri ft s) =
          snd (validate env self
                (show_info (window (tabs s self)) invalid_msg
                  (set_doc d
                     ((docs (remove_validation self s) d)
                        \<lparr>validation_result := Some (Validation env (content (docs s d)))\<rparr>)
                     (remove_validation self s)))))
   \<and> (\<not> list_ex is_error (errors (Validation env (content (docs s d)))) \<longrightarrow>
        OdmlSave d (fst (save_target env uri ft)) (snd (save_target env uri ft))
          \<in> set (new_events s (snd (save env self uri ft s)))
      \<and> (fst (save env self uri ft s) = Returns (Some True)
           \<longleftrightarrow> odml_save env (doc_clean env (content (docs s d)))
                 (fst (save_target env uri ft)) (snd (save_target env uri ft)) = None)
      \<and> (fst (save env self uri ft s) = Returns (Some True) \<longrightarrow>
           edited (tabs (snd (save env self uri ft s)) self)
             = cm_len (cms (snd (save env self uri ft s))
                 (command_manager (tabs (snd (save env self uri ft s)) self)))))"
proof (intro conjI impI)
  assume inv: "list_ex is_error (errors (Validation env (content (docs s d))))"
  note eq = save_invalid_eq [OF assms inv, of uri ft]
  show "fst (save env self uri ft s) = Returns None"
    by (simp add: eq new_events_def)
  show "\<not> list_ex is_OdmlSave (new_events s (snd (save env self uri ft s)))"
    by (simp add: eq new_events_def)
  show "tabs (snd (save env self uri ft s)) = tabs s"
    by (simp add: eq new_events_def)
  show "cms (snd (save env self uri ft s)) = cms s"
    by (simp add: eq new_events_def)
  show "ShowInfo (window (tabs s self)) invalid_msg
          \<in> set (new_events s (snd (save env self uri ft s)))"
    by (simp add: eq new_events_def)
  from inv have ne: "errors (Validation env (content (docs s d))) \<noteq> []"
    by auto
  show "snd (save env self uri ft s) =
          snd (validate env self
                (show_info (window (tabs s self)) invalid_msg
                  (set_doc d
                     ((docs (remove_validation self s) d)
                        \<lparr>validation_result := Some (Validation env (content (docs s d)))\<rparr>)
                     (remove_validation self s))))"
    using assms ne
    by (simp add: eq remove_validation_eq validate_eq show_info_def emit_def set_doc_def
        dangling_def Let_def)
next
  assume val: "\<not> list_ex is_error (errors (Validation env (content (docs s d))))"
  note eq = save_valid_eq [OF assms val, of uri ft]
  show "OdmlSave d (fst (save_target env uri ft)) (snd (save_target env uri ft))
          \<in> set (new_events s (snd (save env self uri ft s)))"
    by (simp add: eq Let_def new_events_def split: option.splits)
  show "fst (save env self uri ft s) = Returns (Some True)
           \<longleftrightarrow> odml_save env (doc_clean env (content (docs s d)))
                 (fst (save_target env uri ft)) (snd (save_target env uri ft)) = None"
    by (simp add: eq Let_def new_events_def split: option.splits)
  show "edited (tabs (snd (save env self uri ft s)) self)
             = cm_len (cms (snd (save env self uri ft s))
                 (command_manager (tabs (snd (save env self uri ft s)) self)))"
    if "fst (save env self uri ft s) = Returns (Some True)"
    using that by (simp add: eq Let_def new_events_def split: option.splits)
qed


theorem save_validation_gate_witness:
  "document (tabs example_state 2) = Some 1
   \<and> list_ex is_error (errors (Validation example_env (content (docs example_state 1))))
   \<and> fst (save example_env 2 ''b.xml'' None example_state) = Returns None
   \<and> tabs (snd (save example_env 2 ''b.xml'' None example_state)) = tabs example_state
   \<and> document (tabs example_state 0) = Some 0
   \<and> \<not> list_ex is_error (errors (Validation example_env (content (docs example_state 0))))
   \<and> fst (save example_env 0 ''a.xml'' None example_state) = Returns (Some True)
   \<and> OdmlSave 0 ''a.xml'' ''XML''
        \<in> set (new_events example_state (snd (save example_env 0 ''a.xml'' None example_state)))"
proof -
  have d2: "document (tabs example_state 2) = Some 1"
    by (simp add: example_state_def)
  have e2: "list_ex is_error (errors (Validation example_env (content (docs example_state 1))))"
    by (simp add: example_state_def example_env_def example_error_def)
  have d0: "document (tabs example_state 0) = Some 0"
    by (simp add: example_state_def)
  have e0: "\<not> list_ex is_error (errors (Validation example_env (content (docs example_state 0))))"
    by (simp add: example_state_def example_env_def example_warning_def)
  have t: "save_target example_env ''a.xml'' None = (''a.xml'', ''XML'')"
    by (simp add: save_target_def example_env_def)
  have w: "odml_save example_env c ''a.xml'' ''XML'' = None" for c
    by (simp add: example_env_def)
  have g2: "fst (save example_env 2 ''b.xml'' None example_state) = Returns None
            \<and> tabs (snd (save example_env 2 ''b.xml'' None example_state)) = tabs example_state"
    using save_validation_gate [OF d2, of example_env "''b.xml''" None] e2 by blast
  have g0: "fst (save example_env 0 ''a.xml'' None example_state) = Returns (Some True)
            \<and> OdmlSave 0 ''a.xml'' ''XML''
                \<in> set (new_events example_state
                          (snd (save example_env 0 ''a.xml'' None example_state)))"
    using save_validation_gate [OF d0, of example_env "''a.xml''" None,
        unfolded t fst_conv snd_conv] e0
      w [of "doc_clean example_env (content (docs example_state 0))"] by simp
  from d2 e2 g2 d0 e0 g0 show ?thesis by blast
qed

section \<open>Validating\<close>

text \<open>
  Claim C2. \<open>validate\<close> on a tab that has a document returns normally. When the new
  validation has errors, it stays attached to the document, and the events logged are:
  the change events for the errors of a validation result that was still attached,
  then one change event per new error, in order, with payload \<open>('_error', True)\<close>,
  \<open>post_change\<close> set, action "set", passed on to the node \<open>obj\<close> of that error, then the
  validation window. When it has none, the document is left without a validation result,
  no validation window is opened, and the notice that the document is valid is shown.
\<close>

theorem validate_posts_change_events:
  assumes "document (tabs s self) = Some d"
  shows
    "fst (validate env self s) = Returns ()
   \<and> (errors (Validation env (content (docs s d))) \<noteq> [] \<longrightarrow>
        validation_result (docs (snd (validate env self s)) d)
          = Some (Validation env (content (docs s d)))
      \<and> new_events s (snd (validate env self s))
          = map change_event (dangling s self)
            @ map (\<lambda>err. ChangeEvent (''_error'', True) True ''set'' (obj err))
                (errors (Validation env (content (docs s d))))
            @ [ShowValidationWindow self])
   \<and> (errors (Validation env (content (docs s d))) = [] \<longrightarrow>
        validation_result (docs (snd (validate env self s)) d) = None
      \<and> \<not> list_ex is_ShowValidationWindow (new_events s (snd (validate env self s)))
      \<and> new_events s (snd (validate env self s))
          = map change_event (dangling s self) @ [ShowInfo (window (tabs s self)) valid_msg])"
proof -
  have ce: "map (\<lambda>err. ChangeEvent (''_error'', True) True ''set'' (obj err)) xs
              = map change_event xs" for xs
    by (simp add: change_event_def)
  show ?thesis
    by (simp add: validate_eq [OF assms] Let_def ce new_events_def)
qed

theorem validate_posts_change_events_witness:
  "document (tabs example_state 2) = Some 1
   \<and> errors (Validation example_env (content (docs example_state 1))) \<noteq> []
   \<and> new_events example_state (snd (validate example_env 2 example_state))
       = [ChangeEvent (''_error'', True) True ''set'' 7,
          ChangeEvent (''_error'', True) True ''set'' 3,
          ShowValidationWindow 2]
   \<and> document (tabs empty_state 0) = None"
proof -
  have d2: "document (tabs example_state 2) = Some 1"
    by (simp add: example_state_def)
  have e2: "errors (Validation example_env (content (docs example_state 1)))
              = [example_error, example_warning]"
    by (simp add: example_state_def example_env_def)
  have dg: "dangling example_state 2 = []"
    by (simp add: dangling_def example_state_def)
  from validate_posts_change_events [OF d2, of example_env] e2 dg d2
  show ?thesis by (simp add: example_error_def example_warning_def empty_state_def)
qed

text \<open>
  Claim C10. The methods \<open>validate\<close>, \<open>update_validation_error_objects\<close> and
  \<open>remove_validation\<close> of EditorTab.py and of editor\_tab.py return the same outcome and the
  same state (documents, log of events, everything else) from the same state and the
  same validation.
\<close>

theorem legacy_validation_equivalent:
  "validate_legacy env self s = validate env self s
   \<and> update_validation_error_objects_legacy errs s = update_validation_error_objects errs s
   \<and> remove_validation_legacy self s = remove_validation self s"
  by (simp add: validate_legacy_def validate_def remove_validation_legacy_eq
      update_validation_error_objects_legacy_eq Let_def set_doc_def emit_def show_info_def
      split: option.splits)

section \<open>Undo and redo broadcasts, reset, and the modified flag\<close>

lemma for_tabs_enable_undo:
  "for_tabs (\<lambda>tab. enable_undo' tab b) xs s =
     s\<lparr>log := log s @ map (\<lambda>u. WindowEnableUndo (window (tabs s u)) b) (current_of s xs)\<rparr>"
  by (induction xs arbitrary: s) (simp_all add: enable_undo'_def emit_def current_of_def)

lemma for_tabs_enable_redo:
  "for_tabs (\<lambda>tab. enable_redo' tab b) xs s =
     s\<lparr>log := log s @ map (\<lambda>u. WindowEnableRedo (window (tabs s u)) b) (current_of s xs)\<rparr>"
  by (induction xs arbitrary: s) (simp_all add: enable_redo'_def emit_def current_of_def)

lemma enable_undo_eq:
  "enable_undo self b s =
     s\<lparr>log := log s @ map (\<lambda>u. WindowEnableUndo (window (tabs s u)) b)
                        (current_of s (lists s (clones (tabs s self))))\<rparr>"
  by (simp add: enable_undo_def for_tabs_enable_undo)

lemma enable_redo_eq:
  "enable_redo self b s =
     s\<lparr>log := log s @ map (\<lambda>u. WindowEnableRedo (window (tabs s u)) b)
                        (current_of s (lists s (clones (tabs s self))))\<rparr>"
  by (simp add: enable_redo_def for_tabs_enable_redo)







section \<open>Loading\<close>

text \<open>
  Claim C9. When the odml loader raises (any exception \<open>e\<close>, the outdated-version one
  included), \<open>load\<close> returns \<open>False\<close>, the tab's document and every document object are as
  before, and the tab's \<open>file_uri\<close> is the uri that failed. The same holds for \<open>load\<close> of
  EditorTab.py when its reader raises.
\<close>

theorem load_failure:
  "(odml_load env (uri_to_path env uri) (get_parser_for_uri env (uri_to_path env uri)) = Inl e \<longrightarrow>
      fst (load env self uri s) = False
    \<and> document (tabs (snd (load env self uri s)) self) = document (tabs s self)
    \<and> docs (snd (load env self uri s)) = docs s
    \<and> file_uri (tabs (snd (load env self uri s)) self) = Some uri)
   \<and> (reader_from_file env (get_parser_for_uri env (uri_to_path env uri)) (uri_to_path env uri)
        = Inl m \<longrightarrow>
      fst (load_legacy env self uri s) = False
    \<and> document (tabs (snd (load_legacy env self uri s)) self) = document (tabs s self)
    \<and> docs (snd (load_legacy env self uri s)) = docs s
    \<and> file_uri (tabs (snd (load_legacy env self uri s)) self) = Some uri)"
  by (cases e) (simp_all add: load_def load_legacy_def Let_def set_tab_def emit_def)

theorem load_failure_witness:
  "odml_load example_env (uri_to_path example_env ''old.xml'')
      (get_parser_for_uri example_env (uri_to_path example_env ''old.xml''))
     = Inl InvalidVersionException
   \<and> reader_from_file example_env
        (get_parser_for_uri example_env (uri_to_path example_env ''bad.xml''))
        (uri_to_path example_env ''bad.xml'') = Inl ''syntax''
   \<and> fst (load example_env 0 ''old.xml'' example_state) = False
   \<and> document (tabs (snd (load example_env 0 ''old.xml'' example_state)) 0) = Some 0
   \<and> file_uri (tabs (snd (load example_env 0 ''old.xml'' example_state)) 0) = Some ''old.xml''
   \<and> fst (load_legacy example_env 0 ''bad.xml'' example_state) = False
   \<and> file_uri (tabs (snd (load_legacy example_env 0 ''bad.xml'' example_state)) 0) = Some ''bad.xml''"
proof -
  have a: "odml_load example_env (uri_to_path example_env ''old.xml'')
      (get_parser_for_uri example_env (uri_to_path example_env ''old.xml''))
     = Inl InvalidVersionException"
    by (simp add: example_env_def)
  have b: "reader_from_file example_env
        (get_parser_for_uri example_env (uri_to_path example_env ''bad.xml''))
        (uri_to_path example_env ''bad.xml'') = Inl ''syntax''"
    by (simp add: example_env_def)
  have d: "document (tabs example_state 0) = Some 0"
    by (simp add: example_state_def)
  from load_failure [where env = example_env and uri = "''old.xml''" and self = 0
           and e = InvalidVersionException and s = example_state]
       load_failure [where env = example_env and uri = "''bad.xml''" and self = 0
           and m = "''syntax''" and s = example_state]
       a b d
  show ?thesis by simp
qed

section \<open>The validation view\<close>

lemma map_index_elements:
  "map (\<lambda>e. fst (snd e)) (elements errs) = [0..<length errs]"
proof -
  have "map (\<lambda>e. fst (snd e)) (elements errs) = map fst (enumerate 0 errs)"
    by (simp add: elements_def case_prod_unfold comp_def)
  then show ?thesis by simp
qed

lemma elements_nth:
  "e \<in> set (elements errs) \<Longrightarrow>
     fst (snd e) < length errs
     \<and> e = (path (errs ! fst (snd e)), fst (snd e), msg (errs ! fst (snd e)),
            is_error (errs ! fst (snd e)))"
  by (auto simp add: elements_def in_set_enumerate_eq)

lemma index_fill_row: "fst (snd (fill_row e)) = fst (snd e)"
  by (cases e) simp

lemma sorted_map_fst:
  fixes xs :: "('a::linorder \<times> 'b::linorder) list"
  shows "sorted xs \<Longrightarrow> sorted (map fst xs)"
  by (induction xs) (auto simp add: less_eq_prod_def)

lemma distinct_elements: "distinct (map (\<lambda>e. fst (snd e)) (elements errs))"
  by (simp add: map_index_elements)


lemma store_fill: "store (fill v) = map fill_row (sort (elements (view_errors v)))"
  by (simp add: fill_def)

lemma fill_row_True:
  "fill_row (p, j, m, True)
     = (p, j, ''<span foreground='' @ q @ ''red'' @ q @ ''>'' @ warn @ ''</span> '' @ m)"
  by simp

lemma fill_row_False:
  "fill_row (p, j, m, False)
     = (''<span foreground='' @ q @ ''darkgrey'' @ q @ ''>'' @ p @ ''</span>'', j,
        ''<span foreground='' @ q @ ''orange'' @ q @ ''>'' @ warn @ ''</span> '' @ m)"
  by simp

text \<open>
  Claim C5. A new view has exactly the two columns "Path" (on store column 0) and
  "Description" (on store column 2) and an empty store of (path, index, description)
  rows. \<open>fill\<close> replaces the store, whatever it held: afterwards there are as many rows
  as errors, the indices of the rows are distinct and are exactly the positions of the
  errors, the rows follow the order of the paths of their errors, and each row is the
  one the loop body makes of its error: for an error the path as it is and a red sign,
  for a warning the path in a dark grey span and an orange sign, so that the description
  of an error row is never that of a warning row.
\<close>

theorem validation_view_fill:
  "columns ValidationView = [(''Path'', COL_PATH, COL_PATH), (''Description'', COL_DESC, COL_DESC)]
   \<and> store ValidationView = []
   \<and> store (fill (v\<lparr>store := rows\<rparr>)) = store (fill v)
   \<and> length (store (fill v)) = length (view_errors v)
   \<and> distinct (map (\<lambda>row. fst (snd row)) (store (fill v)))
   \<and> set (map (\<lambda>row. fst (snd row)) (store (fill v))) = {0..<length (view_errors v)}
   \<and> sorted (map (\<lambda>row. path (view_errors v ! fst (snd row))) (store (fill v)))
   \<and> (\<forall>row \<in> set (store (fill v)).
         row = fill_row (path (view_errors v ! fst (snd row)), fst (snd row),
                         msg (view_errors v ! fst (snd row)),
                         is_error (view_errors v ! fst (snd row))))
   \<and> (\<forall>p j m.
         fill_row (p, j, m, True)
           = (p, j, ''<span foreground='' @ q @ ''red'' @ q @ ''>'' @ warn @ ''</span> '' @ m)
       \<and> fill_row (p, j, m, False)
           = (''<span foreground='' @ q @ ''darkgrey'' @ q @ ''>'' @ p @ ''</span>'', j,
              ''<span foreground='' @ q @ ''orange'' @ q @ ''>'' @ warn @ ''</span> '' @ m))
   \<and> (\<forall>p j m p' j' m'.
         snd (snd (fill_row (p, j, m, True))) \<noteq> snd (snd (fill_row (p', j', m', False))))"
proof (intro conjI)
  let ?els = "elements (view_errors v)"
  let ?idx = "\<lambda>e :: string \<times> nat \<times> string \<times> bool. fst (snd e)"
  have idx: "map (\<lambda>row. fst (snd row)) (store (fill v)) = map ?idx (sort ?els)"
    by (simp add: store_fill comp_def index_fill_row)
  have inj: "inj_on ?idx (set ?els)"
    using distinct_elements [of "view_errors v"] by (simp add: distinct_map)
  have dist: "distinct ?els"
    using distinct_elements [of "view_errors v"] by (simp add: distinct_map)
  show "columns ValidationView
          = [(''Path'', COL_PATH, COL_PATH), (''Description'', COL_DESC, COL_DESC)]"
    by (simp add: ValidationView_def add_column_def)
  show "store ValidationView = []"
    by (simp add: ValidationView_def add_column_def)
  show "store (fill (v\<lparr>store := rows\<rparr>)) = store (fill v)"
    by (simp add: fill_def)
  show "length (store (fill v)) = length (view_errors v)"
    by (simp add: store_fill elements_def)
  show "distinct (map (\<lambda>row. fst (snd row)) (store (fill v)))"
    unfolding idx using inj dist by (simp add: distinct_map)
  have "set (map ?idx (sort ?els)) = set (map ?idx ?els)"
    by simp
  then show "set (map (\<lambda>row. fst (snd row)) (store (fill v))) = {0..<length (view_errors v)}"
    unfolding idx by (simp only: map_index_elements set_upt)
  have "map (\<lambda>row. path (view_errors v ! fst (snd row))) (store (fill v))
          = map fst (sort ?els)"
    using elements_nth [of _ "view_errors v"]
    by (simp add: store_fill index_fill_row) (metis fst_conv)
  then show "sorted (map (\<lambda>row. path (view_errors v ! fst (snd row))) (store (fill v)))"
    by (simp add: sorted_map_fst)
  show "\<forall>row \<in> set (store (fill v)).
         row = fill_row (path (view_errors v ! fst (snd row)), fst (snd row),
                         msg (view_errors v ! fst (snd row)),
                         is_error (view_errors v ! fst (snd row)))"
  proof
    fix row assume "row \<in> set (store (fill v))"
    then obtain e where e: "e \<in> set ?els" and row: "row = fill_row e"
      by (auto simp add: store_fill)
    from elements_nth [OF e] row show "row = fill_row (path (view_errors v ! fst (snd row)), fst (snd row),
                         msg (view_errors v ! fst (snd row)),
                         is_error (view_errors v ! fst (snd row)))"
      by (simp add: index_fill_row)
  qed
  show "\<forall>p j m.
         fill_row (p, j, m, True)
           = (p, j, ''<span foreground='' @ q @ ''red'' @ q @ ''>'' @ warn @ ''</span> '' @ m)
       \<and> fill_row (p, j, m, False)
           = (''<span foreground='' @ q @ ''darkgrey'' @ q @ ''>'' @ p @ ''</span>'', j,
              ''<span foreground='' @ q @ ''orange'' @ q @ ''>'' @ warn @ ''</span> '' @ m)"
    by simp
  show "\<forall>p j m p' j' m'.
         snd (snd (fill_row (p, j, m, True))) \<noteq> snd (snd (fill_row (p', j', m', False)))"
    by (simp add: q_def)
qed

theorem validation_view_fill_witness:
  "store (fill (ValidationView\<lparr>view_errors := [example_error, example_warning]\<rparr>))
     = [fill_row (''/sec'', 1, ''no type'', False),
        fill_row (''/sec/prop'', 0, ''missing value'', True)]
   \<and> set (map (\<lambda>row. fst (snd row))
        (store (fill (ValidationView\<lparr>view_errors := [example_error, example_warning]\<rparr>))))
      = {0..<2}"
proof -
  have s: "store (fill (ValidationView\<lparr>view_errors := [example_error, example_warning]\<rparr>))
     = [fill_row (''/sec'', 1, ''no type'', False),
        fill_row (''/sec/prop'', 0, ''missing value'', True)]"
    by (simp add: fill_def elements_def example_error_def example_warning_def
        less_eq_prod_def less_prod_def del: fill_row.simps)
  have l: "length (view_errors (ValidationView\<lparr>view_errors := [example_error, example_warning]\<rparr>)) = 2"
    by simp
  from validation_view_fill
         [where v = "ValidationView\<lparr>view_errors := [example_error, example_warning]\<rparr>"]
  have "set (map (\<lambda>row. fst (snd row))
        (store (fill (ValidationView\<lparr>view_errors := [example_error, example_warning]\<rparr>))))
      = {0..<length (view_errors (ValidationView\<lparr>view_errors := [example_error, example_warning]\<rparr>))}"
    by blast
  then have b: "set (map (\<lambda>row. fst (snd row))
        (store (fill (ValidationView\<lparr>view_errors := [example_error, example_warning]\<rparr>))))
      = {0..<2}"
    by (simp only: l)
  from s b show ?thesis by (rule conjI)
qed

section \<open>Closing a tab\<close>

lemma close_eq:
  "self \<in> set (lists s (clones (tabs s self))) \<Longrightarrow>
   close self s =
     (Returns (),
      s\<lparr>lists := (lists s)(clones (tabs s self) := remove1 self (lists s (clones (tabs s self))))\<rparr>)"
  by (simp add: close_def Let_def)

lemma remove1_distinct_filter:
  "distinct xs \<Longrightarrow> remove1 x xs = filter (\<lambda>u. u \<noteq> x) xs"
proof (induction xs)
  case Nil
  show ?case by simp
next
  case (Cons a xs)
  have "filter (\<lambda>u. u \<noteq> x) xs = xs" if "x \<notin> set xs"
    using that by (simp add: filter_id_conv) blast
  with Cons show ?case by auto
qed

text \<open>
  Claim C6. \<open>close\<close> on a tab that is in its clone list, a list without repetitions,
  returns normally and changes the state in one place only: the tab is taken out of its
  clone list, the other tabs of the list staying in their order. Every tab object (so
  documents, \<open>file_uri\<close> and \<open>edited\<close> of the remaining clones), every document, every
  command manager, the current tabs, the log and every other list are unchanged. The
  closed tab is not in the list any more, and a later \<open>enable_undo\<close> or \<open>enable_redo\<close>
  of any tab of the group runs over the list without the closed tab: it forwards to the
  window once for each remaining tab that is current.
\<close>

theorem close_frame:
  assumes "self \<in> set (lists s (clones (tabs s self)))"
    and "distinct (lists s (clones (tabs s self)))"
  shows
    "fst (close self s) = Returns ()
   \<and> snd (close self s)
       = s\<lparr>lists := (lists s)(clones (tabs s self) :=
                        filter (\<lambda>u. u \<noteq> self) (lists s (clones (tabs s self))))\<rparr>
   \<and> tabs (snd (close self s)) = tabs s
   \<and> docs (snd (close self s)) = docs s
   \<and> cms (snd (close self s)) = cms s
   \<and> current_tab (snd (close self s)) = current_tab s
   \<and> log (snd (close self s)) = log s
   \<and> (\<forall>l. l \<noteq> clones (tabs s self) \<longrightarrow> lists (snd (close self s)) l = lists s l)
   \<and> self \<notin> set (lists (snd (close self s)) (clones (tabs s self)))
   \<and> (\<forall>u b. clones (tabs s u) = clones (tabs s self) \<longrightarrow>
         enable_undo u b (snd (close self s))
           = for_tabs (\<lambda>tab. enable_undo' tab b)
               (filter (\<lambda>u. u \<noteq> self) (lists s (clones (tabs s self)))) (snd (close self s))
       \<and> enable_redo u b (snd (close self s))
           = for_tabs (\<lambda>tab. enable_redo' tab b)
               (filter (\<lambda>u. u \<noteq> self) (lists s (clones (tabs s self)))) (snd (close self s))
       \<and> new_events s (enable_undo u b (snd (close self s)))
           = map (\<lambda>x. WindowEnableUndo (window (tabs s x)) b)
               (current_of s (filter (\<lambda>u. u \<noteq> self) (lists s (clones (tabs s self)))))
       \<and> new_events s (enable_redo u b (snd (close self s)))
           = map (\<lambda>x. WindowEnableRedo (window (tabs s x)) b)
               (current_of s (filter (\<lambda>u. u \<noteq> self) (lists s (clones (tabs s self))))))"
proof -
  let ?l = "clones (tabs s self)"
  let ?rest = "filter (\<lambda>u. u \<noteq> self) (lists s ?l)"
  have eq: "close self s = (Returns (), s\<lparr>lists := (lists s)(?l := ?rest)\<rparr>)"
    using close_eq [OF assms(1)] remove1_distinct_filter [OF assms(2), of self] by simp
  have cur: "current_of (s\<lparr>lists := ls\<rparr>) xs = current_of s xs" for ls xs
    by (simp add: current_of_def)
  show ?thesis
    by (simp add: eq enable_undo_def enable_redo_def for_tabs_enable_undo for_tabs_enable_redo
        new_events_def cur)
qed

theorem close_frame_witness:
  "0 \<in> set (lists example_state (clones (tabs example_state 0)))
   \<and> distinct (lists example_state (clones (tabs example_state 0)))
   \<and> clones (tabs example_state 1) = clones (tabs example_state 0)
   \<and> lists (snd (close 0 example_state)) 0 = [1]
   \<and> lists (snd (close 0 example_state)) 1 = lists example_state 1
   \<and> tabs (snd (close 0 example_state)) = tabs example_state
   \<and> new_events example_state (enable_undo 1 True (snd (close 0 example_state)))
       = [WindowEnableUndo 0 True]"
proof -
  have a: "0 \<in> set (lists example_state (clones (tabs example_state 0)))"
    by (simp add: example_state_def)
  have b: "distinct (lists example_state (clones (tabs example_state 0)))"
    by (simp add: example_state_def)
  have c: "clones (tabs example_state 1) = clones (tabs example_state 0)"
    by (simp add: example_state_def)
  have l: "clones (tabs example_state 0) = 0" "lists example_state 0 = [0, 1]"
    by (simp_all add: example_state_def)
  have cur: "current_of example_state [Suc 0] = [Suc 0]" "window (tabs example_state (Suc 0)) = 0"
    by (simp_all add: current_of_def example_state_def)
  from close_frame [OF a b] c
  have "snd (close 0 example_state)
          = example_state\<lparr>lists := (lists example_state)(clones (tabs example_state 0) :=
              filter (\<lambda>u. u \<noteq> 0) (lists example_state (clones (tabs example_state 0))))\<rparr>"
    and "tabs (snd (close 0 example_state)) = tabs example_state"
    and "new_events example_state (enable_undo 1 True (snd (close 0 example_state)))
           = map (\<lambda>x. WindowEnableUndo (window (tabs example_state x)) True)
               (current_of example_state
                  (filter (\<lambda>u. u \<noteq> 0) (lists example_state (clones (tabs example_state 0)))))"
    by blast+
  with a b c show ?thesis by (simp add: l cur)
qed


text \<open>
  Claim C7. \<open>MappingEditorTab.close\<close> on a tab that is in its clone list and whose
  document has a proxy object returns normally and takes the tab out of its clone list;
  \<open>unmap_document\<close> is called on the proxy object, in the state after the removal,
  exactly when no tab of class \<open>MappingEditorTab\<close> is left in the list.
\<close>

theorem mapping_close_unmaps:
  assumes "self \<in> set (lists s (clones (tabs s self)))"
    and "document (tabs s self) = Some d"
    and "proxy_obj (docs s d) = Some p"
  shows
    "fst (MappingEditorTab_close self s) = Returns ()
   \<and> lists (snd (MappingEditorTab_close self s)) (clones (tabs s self))
       = remove1 self (lists s (clones (tabs s self)))
   \<and> (UnmapDocument p \<in> set (new_events s (snd (MappingEditorTab_close self s)))
        \<longleftrightarrow> (\<forall>x \<in> set (remove1 self (lists s (clones (tabs s self)))).
               klass (tabs s x) \<noteq> MappingEditorTab))
   \<and> snd (MappingEditorTab_close self s)
       = (if \<forall>x \<in> set (remove1 self (lists s (clones (tabs s self)))).
               klass (tabs s x) \<noteq> MappingEditorTab
          then emit (UnmapDocument p) (snd (close self s))
          else snd (close self s))"
  using assms
  by (simp add: MappingEditorTab_close_def close_eq emit_def new_events_def filter_empty_conv)

theorem mapping_close_unmaps_witness:
  "3 \<in> set (lists example_state (clones (tabs example_state 3)))
   \<and> document (tabs example_state 3) = Some 2
   \<and> proxy_obj (docs example_state 2) = Some 0
   \<and> klass (tabs example_state 3) = MappingEditorTab
   \<and> lists (snd (MappingEditorTab_close 3 example_state)) 2 = []
   \<and> new_events example_state (snd (MappingEditorTab_close 3 example_state)) = [UnmapDocument 0]"
proof -
  have a: "3 \<in> set (lists example_state (clones (tabs example_state 3)))"
    by (simp add: example_state_def)
  have b: "document (tabs example_state 3) = Some 2"
    by (simp add: example_state_def)
  have c: "proxy_obj (docs example_state 2) = Some 0"
    by (simp add: example_state_def)
  have k: "klass (tabs example_state 3) = MappingEditorTab"
    by (simp add: example_state_def)
  have l: "clones (tabs example_state 3) = 2" "lists example_state 2 = [3]"
    by (simp_all add: example_state_def)
  have cl: "snd (close 3 example_state) = example_state\<lparr>lists := (lists example_state)(2 := [])\<rparr>"
    by (simp add: close_eq [OF a] l)
  from mapping_close_unmaps [OF a b c]
  have "snd (MappingEditorTab_close 3 example_state)
       = (if \<forall>x \<in> set (remove1 3 (lists example_state (clones (tabs example_state 3)))).
               klass (tabs example_state x) \<noteq> MappingEditorTab
          then emit (UnmapDocument 0) (snd (close 3 example_state))
          else snd (close 3 example_state))"
    by blast
  then have "snd (MappingEditorTab_close 3 example_state)
       = emit (UnmapDocument 0) (example_state\<lparr>lists := (lists example_state)(2 := [])\<rparr>)"
    by (simp add: l cl)
  with a b c k show ?thesis
    by (simp add: emit_def new_events_def)
qed

section \<open>The clone list\<close>

text \<open>
  Only \<open>__init__\<close>, \<open>clone\<close> and \<open>close\<close> touch clone lists; the other methods leave the
  lists, the list each tab refers to and the allocation counters as they are.
\<close>

lemma clone_frame_remove_validation:
  "clone_frame (remove_validation t s) = clone_frame s"
  by (simp add: remove_validation_def set_doc_def update_validation_error_objects_log
      clone_frame_def split: option.splits)

lemma clone_frame_validate:
  "clone_frame (snd (validate env t s)) = clone_frame s"
proof (cases "document (tabs s t)")
  case None
  then show ?thesis by (simp add: validate_def remove_validation_def)
next
  case (Some d)
  then show ?thesis by (simp add: validate_eq Let_def clone_frame_def)
qed

lemma clone_frame_save:
  "clone_frame (snd (save env t uri ft s)) = clone_frame s"
proof (cases "document (tabs s t)")
  case None
  then show ?thesis by (simp add: save_def remove_validation_def)
next
  case (Some d)
  show ?thesis
  proof (cases "list_ex is_error (errors (Validation env (content (docs s d))))")
    case True
    then show ?thesis by (simp add: save_invalid_eq [OF Some] clone_frame_def)
  next
    case False
    then show ?thesis
      by (auto simp add: save_valid_eq [OF Some] Let_def clone_frame_def fun_eq_iff
          split: option.splits)
  qed
qed

lemma clone_frame_new: "clone_frame (new env t doc s) = clone_frame s"
  by (cases doc)
     (auto simp add: new_def Let_def set_tab_def set_doc_def emit_def clone_frame_def fun_eq_iff)

lemma clone_frame_load: "clone_frame (snd (load env t uri s)) = clone_frame s"
  by (auto simp add: load_def Let_def set_tab_def set_doc_def emit_def show_info_def
      clone_frame_def fun_eq_iff split: sum.splits load_exn.splits)

lemma clone_frame_enable_undo: "clone_frame (enable_undo t b s) = clone_frame s"
  by (simp add: enable_undo_eq clone_frame_def)

lemma clone_frame_enable_redo: "clone_frame (enable_redo t b s) = clone_frame s"
  by (simp add: enable_redo_eq clone_frame_def)

lemma clone_frame_reset: "clone_frame (reset env t s) = clone_frame s"
  by (auto simp add: reset_def Let_def set_tab_def enable_undo_eq enable_redo_eq
      clone_frame_def fun_eq_iff)

lemma clone_frame_cong:
  assumes "clone_frame s' = clone_frame s"
  shows "wf s' = wf s" and "in_own_clones s' t = in_own_clones s t"
    and "next_tab s' = next_tab s"
proof -
  from assms have l: "lists s' = lists s" and n: "next_tab s' = next_tab s"
    and nl: "next_list s' = next_list s"
    and c: "\<And>u. clones (tabs s' u) = clones (tabs s u)"
    by (auto simp add: clone_frame_def dest: fun_cong)
  show "wf s' = wf s" by (simp add: wf_def l n nl c)
  show "in_own_clones s' t = in_own_clones s t" by (simp add: in_own_clones_def l c)
  show "next_tab s' = next_tab s" by (rule n)
qed


lemma clone_frame_init_tab:
  "clone_frame (snd (init_tab k w cmdm s))
     = ((lists s)(next_list s := [next_tab s]),
        (\<lambda>u. clones (tabs s u))(next_tab s := next_list s),
        Suc (next_tab s), Suc (next_list s))"
  by (cases cmdm) (auto simp add: init_tab_def Let_def set_tab_def clone_frame_def fun_eq_iff)

lemma fst_init_tab: "fst (init_tab k w cmdm s) = next_tab s"
  by (cases cmdm) (simp_all add: init_tab_def Let_def)

lemma fst_clone: "fst (clone u k s) = next_tab s"
  by (simp add: clone_def Let_def init_tab_def set_tab_def split: option.splits)

lemma clone_frame_clone:
  assumes "u < next_tab s" and "clones (tabs s u) < next_list s"
  shows "clone_frame (snd (clone u k s))
     = ((lists s)(next_list s := [next_tab s],
                  clones (tabs s u) := lists s (clones (tabs s u)) @ [next_tab s]),
        (\<lambda>x. clones (tabs s x))(next_tab s := clones (tabs s u)),
        Suc (next_tab s), Suc (next_list s))"
  using assms
  by (auto simp add: clone_def init_tab_def Let_def set_tab_def clone_frame_def fun_eq_iff)

lemma clone_frame_close:
  "clone_frame (snd (close u s))
     = ((lists s)(clones (tabs s u) := remove1 u (lists s (clones (tabs s u)))),
        (\<lambda>x. clones (tabs s x)), next_tab s, next_list s)"
  by (auto simp add: close_def Let_def clone_frame_def fun_eq_iff remove1_idem)

lemma frame_fields:
  assumes "clone_frame s' = (ls, cl, nt, nl)"
  shows "lists s' = ls" and "\<And>u. clones (tabs s' u) = cl u" and "next_tab s' = nt"
    and "next_list s' = nl"
  using assms by (auto simp add: clone_frame_def)

lemma init_tab_inv:
  assumes "wf s"
  shows "wf (snd (init_tab k w cmdm s))"
    and "next_tab (snd (init_tab k w cmdm s)) = Suc (next_tab s)"
    and "in_own_clones (snd (init_tab k w cmdm s)) (next_tab s)"
    and "t < next_tab s \<Longrightarrow> in_own_clones s t \<Longrightarrow> in_own_clones (snd (init_tab k w cmdm s)) t"
proof -
  note f = frame_fields [OF clone_frame_init_tab, of k w cmdm s]
  from assms show "wf (snd (init_tab k w cmdm s))"
    by (auto simp add: wf_def f less_Suc_eq)
  show "next_tab (snd (init_tab k w cmdm s)) = Suc (next_tab s)"
    by (simp add: f)
  show "in_own_clones (snd (init_tab k w cmdm s)) (next_tab s)"
    by (simp add: in_own_clones_def f)
  show "in_own_clones (snd (init_tab k w cmdm s)) t" if "t < next_tab s" "in_own_clones s t"
  proof -
    from that(1) assms have "clones (tabs s t) < next_list s"
      by (simp add: wf_def)
    with that show ?thesis by (simp add: in_own_clones_def f)
  qed
qed

lemma clone_inv:
  assumes "wf s" and "u < next_tab s"
  shows "wf (snd (clone u k s))"
    and "next_tab (snd (clone u k s)) = Suc (next_tab s)"
    and "clones (tabs (snd (clone u k s)) (next_tab s)) = clones (tabs (snd (clone u k s)) u)"
    and "in_own_clones (snd (clone u k s)) (next_tab s)"
    and "t < next_tab s \<Longrightarrow> in_own_clones s t \<Longrightarrow> in_own_clones (snd (clone u k s)) t"
proof -
  from assms have lu: "clones (tabs s u) < next_list s"
    by (simp add: wf_def)
  note f = frame_fields [OF clone_frame_clone [OF assms(2) lu], of k]
  from assms lu show "wf (snd (clone u k s))"
    by (auto simp add: wf_def f less_Suc_eq)
  show "next_tab (snd (clone u k s)) = Suc (next_tab s)"
    by (simp add: f)
  from assms show "clones (tabs (snd (clone u k s)) (next_tab s)) = clones (tabs (snd (clone u k s)) u)"
    by (simp add: f)
  from lu show "in_own_clones (snd (clone u k s)) (next_tab s)"
    by (simp add: in_own_clones_def f)
  show "in_own_clones (snd (clone u k s)) t" if "t < next_tab s" "in_own_clones s t"
  proof -
    from that(1) assms have "clones (tabs s t) < next_list s"
      by (simp add: wf_def)
    with that show ?thesis by (auto simp add: in_own_clones_def f)
  qed
qed

lemma close_inv:
  assumes "wf s"
  shows "wf (snd (close u s))"
    and "next_tab (snd (close u s)) = next_tab s"
    and "t \<noteq> u \<Longrightarrow> in_own_clones s t \<Longrightarrow> in_own_clones (snd (close u s)) t"
proof -
  note f = frame_fields [OF clone_frame_close, of u s]
  from assms show "wf (snd (close u s))"
    by (auto simp add: wf_def f dest: notin_set_remove1)
  show "next_tab (snd (close u s)) = next_tab s"
    by (simp add: f)
  show "in_own_clones (snd (close u s)) t" if "t \<noteq> u" "in_own_clones s t"
    using that by (auto simp add: in_own_clones_def f)
qed

lemma exec_inv:
  assumes "wf s" and "valid s c" and "t < next_tab s" and "in_own_clones s t"
    and "c \<noteq> Close t"
  shows "wf (exec env c s) \<and> t < next_tab (exec env c s) \<and> in_own_clones (exec env c s) t"
proof (cases c)
  case (Init k w cmdm)
  with assms show ?thesis by (simp add: init_tab_inv [OF assms(1)])
next
  case (Clone u k)
  with assms show ?thesis by (simp add: clone_inv [OF assms(1)])
next
  case (Close u)
  with assms show ?thesis by (auto simp add: close_inv [OF assms(1)])
next
  case (New u doc)
  with assms show ?thesis by (simp add: clone_frame_cong [OF clone_frame_new])
next
  case (Load u uri)
  with assms show ?thesis by (simp add: clone_frame_cong [OF clone_frame_load])
next
  case (Reset u)
  with assms show ?thesis by (simp add: clone_frame_cong [OF clone_frame_reset])
next
  case (Save u uri ft)
  with assms show ?thesis by (simp add: clone_frame_cong [OF clone_frame_save])
next
  case (EnableUndo u b)
  with assms show ?thesis by (simp add: clone_frame_cong [OF clone_frame_enable_undo])
next
  case (EnableRedo u b)
  with assms show ?thesis by (simp add: clone_frame_cong [OF clone_frame_enable_redo])
next
  case (Validate u)
  with assms show ?thesis by (simp add: clone_frame_cong [OF clone_frame_validate])
next
  case (RemoveValidation u)
  with assms show ?thesis by (simp add: clone_frame_cong [OF clone_frame_remove_validation])
next
  case (SetCurrentTab w u)
  have "clone_frame (s\<lparr>current_tab := (current_tab s)(w := u)\<rparr>) = clone_frame s"
    by (simp add: clone_frame_def)
  from assms SetCurrentTab clone_frame_cong [OF this] show ?thesis by simp
qed

lemma run_inv:
  "wf s \<Longrightarrow> valid_run env cs s \<Longrightarrow> t < next_tab s \<Longrightarrow> in_own_clones s t \<Longrightarrow>
   Close t \<notin> set cs \<Longrightarrow>
   wf (run env cs s) \<and> t < next_tab (run env cs s) \<and> in_own_clones (run env cs s) t"
proof (induction cs arbitrary: s)
  case Nil
  then show ?case by simp
next
  case (Cons c cs)
  from Cons.prems have "c \<noteq> Close t" and v: "valid s c" by auto
  from exec_inv [OF Cons.prems(1) v Cons.prems(3,4) this(1), of env]
  have "wf (exec env c s)" "t < next_tab (exec env c s)" "in_own_clones (exec env c s) t"
    by simp_all
  with Cons.IH [of "exec env c s"] Cons.prems show ?case by simp
qed


text \<open>
  Claim C3. \<open>enable_undo(b)\<close> on a tab runs \<open>_enable_undo(b)\<close> on every tab of the tab's
  clone list, in order; the effect is one call \<open>window.enable_undo(b)\<close> for each tab of
  the list that is the current tab of its window, and nothing else. \<open>enable_redo\<close> does
  the same with \<open>window.enable_redo\<close>. About the list: a constructed tab that is in its
  own clone list stays in it through every sequence of calls (of any methods, on any
  constructed tabs) that does not close it; a newly constructed tab has the list holding
  just itself; and \<open>clone\<close> gives the new tab the very list of the cloned tab (the same
  reference, which the cloned tab keeps), with both tabs in it.
\<close>

theorem enable_undo_broadcast:
  assumes "wf s" and "self < next_tab s"
  shows
    "enable_undo self b s
       = for_tabs (\<lambda>tab. enable_undo' tab b) (lists s (clones (tabs s self))) s
   \<and> enable_undo self b s
       = s\<lparr>log := log s @ map (\<lambda>u. WindowEnableUndo (window (tabs s u)) b)
                          (current_of s (lists s (clones (tabs s self))))\<rparr>
   \<and> enable_redo self b s
       = for_tabs (\<lambda>tab. enable_redo' tab b) (lists s (clones (tabs s self))) s
   \<and> enable_redo self b s
       = s\<lparr>log := log s @ map (\<lambda>u. WindowEnableRedo (window (tabs s u)) b)
                          (current_of s (lists s (clones (tabs s self))))\<rparr>
   \<and> (in_own_clones s self \<longrightarrow> valid_run env cs s \<longrightarrow> Close self \<notin> set cs \<longrightarrow>
        in_own_clones (run env cs s) self)
   \<and> lists (snd (init_tab k w cmdm s))
        (clones (tabs (snd (init_tab k w cmdm s)) (fst (init_tab k w cmdm s))))
       = [fst (init_tab k w cmdm s)]
   \<and> clones (tabs (snd (clone self kl s)) (fst (clone self kl s)))
       = clones (tabs (snd (clone self kl s)) self)
   \<and> clones (tabs (snd (clone self kl s)) self) = clones (tabs s self)
   \<and> in_own_clones (snd (clone self kl s)) (fst (clone self kl s))
   \<and> (in_own_clones s self \<longrightarrow> in_own_clones (snd (clone self kl s)) self)"
proof (intro conjI impI)
  show "enable_undo self b s
       = for_tabs (\<lambda>tab. enable_undo' tab b) (lists s (clones (tabs s self))) s"
    by (simp add: enable_undo_def)
  show "enable_undo self b s
       = s\<lparr>log := log s @ map (\<lambda>u. WindowEnableUndo (window (tabs s u)) b)
                          (current_of s (lists s (clones (tabs s self))))\<rparr>"
    by (rule enable_undo_eq)
  show "enable_redo self b s
       = for_tabs (\<lambda>tab. enable_redo' tab b) (lists s (clones (tabs s self))) s"
    by (simp add: enable_redo_def)
  show "enable_redo self b s
       = s\<lparr>log := log s @ map (\<lambda>u. WindowEnableRedo (window (tabs s u)) b)
                          (current_of s (lists s (clones (tabs s self))))\<rparr>"
    by (rule enable_redo_eq)
  show "in_own_clones (run env cs s) self"
    if "in_own_clones s self" "valid_run env cs s" "Close self \<notin> set cs"
    using run_inv [OF assms(1) that(2) assms(2) that(1,3)] by simp
  note fi = frame_fields [OF clone_frame_init_tab, of k w cmdm s]
  show "lists (snd (init_tab k w cmdm s))
        (clones (tabs (snd (init_tab k w cmdm s)) (fst (init_tab k w cmdm s))))
       = [fst (init_tab k w cmdm s)]"
    by (simp add: fst_init_tab fi)
  show "clones (tabs (snd (clone self kl s)) (fst (clone self kl s)))
       = clones (tabs (snd (clone self kl s)) self)"
    by (simp add: fst_clone clone_inv(3) [OF assms])
  from assms have lu: "clones (tabs s self) < next_list s"
    by (simp add: wf_def)
  note fc = frame_fields [OF clone_frame_clone [OF assms(2) lu], of kl]
  from assms(2) show "clones (tabs (snd (clone self kl s)) self) = clones (tabs s self)"
    by (simp add: fc)
  show "in_own_clones (snd (clone self kl s)) (fst (clone self kl s))"
    by (simp add: fst_clone clone_inv(4) [OF assms])
  show "in_own_clones (snd (clone self kl s)) self" if "in_own_clones s self"
    using clone_inv(5) [OF assms assms(2) that] by simp
qed

lemma wf_example_state: "wf example_state"
  by (simp add: wf_def example_state_def empty_state_def less_Suc_eq numeral_eq_Suc)

theorem enable_undo_broadcast_witness:
  "wf example_state \<and> 0 < next_tab example_state \<and> in_own_clones example_state 0
   \<and> valid_run example_env [Clone 0 None, Close 1, Validate 0] example_state
   \<and> Close 0 \<notin> set [Clone 0 None, Close 1, Validate 0]
   \<and> in_own_clones (run example_env [Clone 0 None, Close 1, Validate 0] example_state) 0
   \<and> new_events example_state (enable_undo 0 True example_state) = [WindowEnableUndo 0 True]"
proof -
  have n: "0 < next_tab example_state" "next_tab example_state = 4"
    by (simp_all add: example_state_def)
  have o: "in_own_clones example_state 0"
    by (simp add: in_own_clones_def example_state_def)
  have n1: "next_tab (snd (clone 0 None example_state)) = 5"
    using clone_inv(2) [OF wf_example_state n(1), of None] n(2) by simp
  have n2: "next_tab (snd (close 1 (snd (clone 0 None example_state)))) = 5"
    using close_inv(2) [OF clone_inv(1) [OF wf_example_state n(1)], of 1 None] n1 by simp
  have v: "valid_run example_env [Clone 0 None, Close 1, Validate 0] example_state"
    using n n1 n2 by simp
  have c: "Close 0 \<notin> set [Clone 0 None, Close 1, Validate 0]"
    by simp
  have cur: "current_of example_state (lists example_state (clones (tabs example_state 0))) = [1]"
    "window (tabs example_state 1) = 0"
    by (simp_all add: current_of_def example_state_def)
  from enable_undo_broadcast [OF wf_example_state n(1), of True example_env
      "[Clone 0 None, Close 1, Validate 0]"] o v c
  have r: "in_own_clones (run example_env [Clone 0 None, Close 1, Validate 0] example_state) 0"
    and e: "enable_undo 0 True example_state
       = example_state\<lparr>log := log example_state
           @ map (\<lambda>u. WindowEnableUndo (window (tabs example_state u)) True)
               (current_of example_state (lists example_state (clones (tabs example_state 0))))\<rparr>"
    by blast+
  have "new_events example_state (enable_undo 0 True example_state) = [WindowEnableUndo 0 True]"
    using cur by (simp add: e new_events_def)
  with wf_example_state n(1) o v c r show ?thesis by blast
qed

section \<open>Mapped clones\<close>

lemma two_documents_state_fields:
  "tabs two_documents_state 0
     = \<lparr>klass = EditorTab, window = 0, command_manager = 0, document = Some 0,
        file_uri = None, edited = 0, clones = 0\<rparr>"
  "tabs two_documents_state (Suc 0)
     = \<lparr>klass = EditorTab, window = 0, command_manager = 0, document = Some 1,
        file_uri = Some ''c.xml'', edited = 0, clones = 0\<rparr>"
  "lists two_documents_state 0 = [0, 1]"
  "docs two_documents_state 0 = \<lparr>content = 0, validation_result = None, proxy_obj = None\<rparr>"
  "docs two_documents_state (Suc 0) = \<lparr>content = 5, validation_result = None, proxy_obj = None\<rparr>"
  "next_doc two_documents_state = 2"
  "next_tab two_documents_state = 2"
  "next_list two_documents_state = 2"
  by (simp_all add: two_documents_state_def load_legacy_def clone_def new_def init_tab_def
      empty_state_def example_env_def Let_def set_tab_def set_doc_def emit_def show_info_def)

text \<open>
  Claim C4, evaluated where it fails. In \<open>two_documents_state\<close> tab 0 holds document 0,
  its clone list is \<open>[0, 1]\<close> with no mapped tab in it, and tab 1 holds document 1.
  \<open>clone_mapping\<close> on tab 0 returns the new tab 2, whose document is the mapping made
  from document 1, the document of the last tab of the list, and not the mapping of
  document 0, tab 0's own document.
\<close>

theorem clone_mapping_maps_last_clone:
  "document (tabs two_documents_state 0) = Some 0
   \<and> content (docs two_documents_state 0) = 0
   \<and> lists two_documents_state (clones (tabs two_documents_state 0)) = [0, 1]
   \<and> document (tabs two_documents_state 1) = Some 1
   \<and> content (docs two_documents_state 1) = 5
   \<and> fst (clone_mapping example_env 0 two_documents_state) = Returns 2
   \<and> document (tabs (snd (clone_mapping example_env 0 two_documents_state)) 2) = Some 2
   \<and> docs (snd (clone_mapping example_env 0 two_documents_state)) 2
       = \<lparr>content = create_mapping example_env (content (docs two_documents_state 1)),
          validation_result = None, proxy_obj = Some 1\<rparr>
   \<and> docs (snd (clone_mapping example_env 0 two_documents_state)) 2
       \<noteq> \<lparr>content = create_mapping example_env (content (docs two_documents_state 0)),
          validation_result = None, proxy_obj = Some 0\<rparr>"
  by (simp add: two_documents_state_fields clone_mapping_def clone_def init_tab_def Let_def
      set_tab_def set_doc_def emit_def example_env_def)


text \<open>
  Where \<open>clone_mapping\<close> does what its docstring says: it returns a clone of the first
  mapped tab of the list when there is one; with no mapped tab it maps the document of
  the last tab of the list, which is the tab's own document as long as the tabs of the
  list hold one document. On an empty list (the tab was closed and had no clone) the
  loop variable is unbound.
\<close>

lemma clone_mapping_existing:
  assumes "find (\<lambda>tab. klass (tabs s tab) = MappingEditorTab) (lists s (clones (tabs s self)))
             = Some tab"
  shows "clone_mapping env self s = (Returns (fst (clone tab None s)), snd (clone tab None s))"
  using assms by (simp add: clone_mapping_def Let_def case_prod_unfold)

lemma clone_mapping_empty_list:
  assumes "lists s (clones (tabs s self)) = []"
  shows "clone_mapping env self s = (Raises NameError, s)"
  using assms by (simp add: clone_mapping_def)

lemma clone_mapping_documents_agree:
  assumes "find (\<lambda>tab. klass (tabs s tab) = MappingEditorTab) (lists s (clones (tabs s self)))
             = None"
    and "lists s (clones (tabs s self)) \<noteq> []"
    and "document (tabs s (last (lists s (clones (tabs s self))))) = Some d"
    and "self < next_tab s"
  shows "fst (clone_mapping env self s) = Returns (next_tab s)
       \<and> klass (tabs (snd (clone_mapping env self s)) (next_tab s)) = MappingEditorTab
       \<and> document (tabs (snd (clone_mapping env self s)) (next_tab s)) = Some (next_doc s)
       \<and> docs (snd (clone_mapping env self s)) (next_doc s)
           = \<lparr>content = create_mapping env (content (docs s d)), validation_result = None,
              proxy_obj = Some d\<rparr>
       \<and> clones (tabs (snd (clone_mapping env self s)) (next_tab s)) = clones (tabs s self)
       \<and> new_events s (snd (clone_mapping env self s))
           = [RegistryAdd (window (tabs s self)) (next_doc s)]"
  using assms
  by (simp add: clone_mapping_def clone_def init_tab_def Let_def set_tab_def set_doc_def
      emit_def new_events_def)

end
